theory Spec2Isabelle
  imports Complex_Main
begin

section \<open>Text helpers of the Python runtime\<close>

text \<open>
  Python strings are modelled as \<^typ>\<open>string\<close>; the model covers ASCII text. The
  functions below are the parts of \<^verbatim>\<open>str\<close> and \<^verbatim>\<open>re\<close> the server relies on.
\<close>

definition is_space :: "char \<Rightarrow> bool" where
  \<comment> \<open>\<^verbatim>\<open>str.isspace\<close> and the class \<^verbatim>\<open>\s\<close> on ASCII: tab, LF, VT, FF, CR, FS, GS, RS, US, space.\<close>
  "is_space c \<longleftrightarrow> c \<in> set [CHR 0x09, CHR 0x0A, CHR 0x0B, CHR 0x0C, CHR 0x0D,
                              CHR 0x1C, CHR 0x1D, CHR 0x1E, CHR 0x1F, CHR 0x20]"

definition strip :: "string \<Rightarrow> string" where
  \<comment> \<open>\<^verbatim>\<open>s.strip()\<close>\<close>
  "strip s = rev (dropWhile is_space (rev (dropWhile is_space s)))"

definition lower_char :: "char \<Rightarrow> char" where
  "lower_char c =
     (if c \<in> set ''ABCDEFGHIJKLMNOPQRSTUVWXYZ''
      then char_of (of_char c + (32::nat)) else c)"

definition lower :: "string \<Rightarrow> string" where
  \<comment> \<open>\<^verbatim>\<open>s.lower()\<close>\<close>
  "lower s = map lower_char s"

definition replace_space :: "string \<Rightarrow> string" where
  \<comment> \<open>\<^verbatim>\<open>s.replace(" ", "_")\<close>\<close>
  "replace_space s = map (\<lambda>c. if c = CHR '' '' then CHR ''_'' else c) s"

definition digit_char :: "nat \<Rightarrow> char" where
  "digit_char d = char_of (48 + d)"

function str_nat :: "nat \<Rightarrow> string" where
  "str_nat n = (if n < 10 then [digit_char n] else str_nat (n div 10) @ [digit_char (n mod 10)])"
  by pat_completeness auto
termination
  by (relation "measure id") auto

declare str_nat.simps [simp del]

definition str_int :: "int \<Rightarrow> string" where
  \<comment> \<open>\<^verbatim>\<open>str(i)\<close>, as an f-string renders an int\<close>
  "str_int i = (if i < 0 then CHR ''-'' # str_nat (nat (- i)) else str_nat (nat i))"

fun match_ci :: "string \<Rightarrow> string \<Rightarrow> string option" where
  \<comment> \<open>a literal of a pattern compiled with \<^verbatim>\<open>re.IGNORECASE\<close>, matched at the start of
      the text; the result is the text after the literal\<close>
  "match_ci [] s = Some s"
| "match_ci (p # ps) [] = None"
| "match_ci (p # ps) (c # cs) = (if lower_char p = lower_char c then match_ci ps cs else None)"

fun search :: "(string \<Rightarrow> string option) \<Rightarrow> string \<Rightarrow> string option" where
  \<comment> \<open>\<^verbatim>\<open>re.search\<close>: the leftmost position at which the matcher succeeds\<close>
  "search m [] = m []"
| "search m (c # cs) = (case m (c # cs) of Some r \<Rightarrow> Some r | None \<Rightarrow> search m cs)"

definition group1 :: "string \<Rightarrow> string" where
  \<comment> \<open>the group \<^verbatim>\<open>(.*?)\<close> before \<^verbatim>\<open>(?:\n|$)\<close>: the text up to the first line break\<close>
  "group1 rest = takeWhile (\<lambda>c. c \<noteq> CHR 0x0A) rest"

definition first_question_marker :: "string \<Rightarrow> string option" where
  \<comment> \<open>\<^verbatim>\<open>Question\s*1:\<close>\<close>
  "first_question_marker s =
     (case match_ci ''Question'' s of
        None \<Rightarrow> None
      | Some r \<Rightarrow> match_ci ''1:'' (dropWhile is_space r))"

definition next_question_marker :: "int \<Rightarrow> string \<Rightarrow> string option" where
  \<comment> \<open>\<^verbatim>\<open>Question {next_q_num}:\<close>\<close>
  "next_question_marker n s = match_ci (''Question '' @ str_int n @ '':'') s"

definition extract_first_question :: "string \<Rightarrow> string" where
  "extract_first_question ai_response =
     (case search first_question_marker ai_response of
        Some rest \<Rightarrow> strip (group1 rest)
      | None \<Rightarrow> ai_response)"

definition extract_next_question :: "int \<Rightarrow> string \<Rightarrow> string" where
  "extract_next_question next_q_num ai_response =
     (case search (next_question_marker next_q_num) ai_response of
        Some rest \<Rightarrow> strip (group1 rest)
      | None \<Rightarrow> ai_response)"

section \<open>Data model\<close>

datatype py_error = GatewayError | AttributeError | IndexError | ValueError | OSError

text \<open>
  Python values that travel as JSON: what \<^verbatim>\<open>json.loads\<close> returns, what the handlers
  return as dicts, and what \<^verbatim>\<open>json.dump\<close> writes.
\<close>

datatype pyval =
    PNone
  | PBool bool
  | PInt int
  | PFloat real
  | PStr string
  | PList "pyval list"
  | PDict "(string \<times> pyval) list"

type_synonym pydict = "(string \<times> pyval) list"

type_synonym token = string

text \<open>
  An instant is the number of microseconds since the epoch. The source stores
  \<^verbatim>\<open>datetime.now().isoformat()\<close> and reads it back with \<^verbatim>\<open>datetime.fromisoformat\<close>,
  which is exact, so the model stores the instant itself.
\<close>

type_synonym instant = int

text \<open>
  The test configuration is the dict \<^verbatim>\<open>create_test\<close> builds. Every key is present, so
  the defaults of \<^verbatim>\<open>config.get(key, default)\<close> never apply; a value the request did
  not carry is Python's \<^verbatim>\<open>None\<close>.
\<close>

record config =
  cfg_token :: token
  candidate_name :: "string option"
  email :: "string option"
  phone :: "string option"
  experience_level :: "string option"
  role_subject :: "string option"
  difficulty :: "string option"
  duration :: int
  num_questions :: int
  created_at :: instant
  status :: string

datatype role = System | User | Assistant

text \<open>
  The content of a message is a text, or one of the four f-string templates of
  \<^verbatim>\<open>generatequestion.py\<close> together with the values it interpolates, in the order of
  their first occurrence in the template.
\<close>

datatype content =
    Text string
  | System_prompt int "string option" "string option" "string option"
      \<comment> \<open>\<^verbatim>\<open>build_system_prompt\<close>: num_questions, experience_level, difficulty, role_subject\<close>
  | Initial_prompt "string option" "string option" "string option"
      \<comment> \<open>candidate_name, role_subject, difficulty\<close>
  | Next_prompt int string int "string option" int
      \<comment> \<open>current_q_num, answer, next_q_num, role_subject, questions remaining\<close>
  | Summary_prompt int string
      \<comment> \<open>actual_questions_asked, final_answer\<close>

type_synonym message = "role \<times> content"

datatype interview_state = Greeting | Questioning | Complete

record interview_session =
  sess_config :: config
  system_prompt :: message
  chat_history :: "message list"
  actual_questions_asked :: int
  actual_questions :: "string list"
  answers :: "string list"
  ratings :: "pyval list"
  is_complete :: bool
  current_state :: interview_state
  started_at :: instant
  final_summary :: "pyval option"
  completed_at :: "instant option"

record log_entry =
  entry_number :: int
  entry_question :: string
  entry_answer :: "string option"
  entry_rating :: "pyval option"

record interview_log =
  log_token :: token
  log_started_at :: instant
  log_completed_at :: "instant option"
  duration_minutes :: "int option"
  log_name :: "string option"
  log_email :: "string option"
  log_role :: "string option"
  log_experience_level :: "string option"
  log_num_questions :: int
  log_difficulty :: "string option"
  log_duration :: int
  log_interview :: "log_entry list"
  log_summary :: pyval

record session_state =
  current_stage :: int
  stages :: "int \<rightharpoonup> string"
  terminated :: bool
  completed :: bool
  termination_reason :: "string option"
  terminated_at :: "instant option"

datatype violation_time = Reported string | Server_time instant

record violation =
  vtype :: "string option"
  vtimestamp :: violation_time
  details :: string

text \<open>
  The mutable state of the process and of its working directory: the module-level dicts
  \<^verbatim>\<open>interview_sessions\<close>, \<^verbatim>\<open>test_data_storage\<close> and \<^verbatim>\<open>session_data\<close>, the files
  \<^verbatim>\<open>uploads/test_<token>.json\<close>, the files
  \<^verbatim>\<open>interview_logs/<safe_name>/interview_<token>.json\<close> and the audio files of the
  temporary directory. \<open>fs_error\<close> is the condition of the file system under
  \<^verbatim>\<open>interview_logs\<close>: the exception that creating the directory of that path, or
  opening the file of that path for writing, raises (no permission, a file in the place
  of a directory, a full disk), if any.
\<close>

record world =
  interview_sessions :: "token \<rightharpoonup> interview_session"
  test_data_storage :: "token \<rightharpoonup> config"
  states :: "token \<rightharpoonup> session_state"
  violations :: "token \<rightharpoonup> violation list"
  uploads :: "token \<rightharpoonup> config"
  interview_logs :: "string \<times> token \<rightharpoonup> interview_log"
  audio_files :: "string \<rightharpoonup> string"
  fs_error :: "string \<rightharpoonup> py_error"

definition empty_world :: world where
  "empty_world = \<lparr>interview_sessions = Map.empty, test_data_storage = Map.empty,
     states = Map.empty, violations = Map.empty, uploads = Map.empty,
     interview_logs = Map.empty, audio_files = Map.empty, fs_error = Map.empty\<rparr>"

text \<open>
  The chat completion of the external provider, called with \<^verbatim>\<open>max_tokens\<close> and the
  messages: the content of the first choice, or \<open>None\<close> when the call raises.
\<close>

type_synonym gateway = "nat \<Rightarrow> message list \<Rightarrow> string option"

section \<open>The interview engine (generatequestion.py)\<close>

definition build_system_prompt :: "config \<Rightarrow> message" where
  "build_system_prompt cfg =
     (System, System_prompt (num_questions cfg) (experience_level cfg) (difficulty cfg)
        (role_subject cfg))"

definition put_session :: "token \<Rightarrow> interview_session \<Rightarrow> world \<Rightarrow> world" where
  \<comment> \<open>the session dict of a token after a mutation\<close>
  "put_session tok s w = w\<lparr>interview_sessions := (interview_sessions w)(tok \<mapsto> s)\<rparr>"

definition initialize_interview_session ::
  "instant \<Rightarrow> token \<Rightarrow> config \<Rightarrow> world \<Rightarrow> interview_session \<times> world" where
  "initialize_interview_session now tok cfg w =
     (let sp = build_system_prompt cfg;
          s = \<lparr>sess_config = cfg, system_prompt = sp, chat_history = [sp],
               actual_questions_asked = 0, actual_questions = [], answers = [],
               ratings = [], is_complete = False, current_state = Greeting,
               started_at = now, final_summary = None, completed_at = None\<rparr>
      in (s, put_session tok s w))"

definition get_interview_session :: "token \<Rightarrow> world \<Rightarrow> interview_session option" where
  "get_interview_session tok w = interview_sessions w tok"

definition start_structured_interview ::
  "gateway \<Rightarrow> instant \<Rightarrow> token \<Rightarrow> config \<Rightarrow> world \<Rightarrow> (py_error + string) \<times> world" where
  "start_structured_interview chat now tok cfg w =
     (let (session, w1) = initialize_interview_session now tok cfg w;
          initial_prompt = Initial_prompt (candidate_name cfg) (role_subject cfg) (difficulty cfg);
          messages = [system_prompt session, (User, initial_prompt)]
      in case chat 200 messages of
           None \<Rightarrow> (Inl GatewayError, w1)
         | Some reply \<Rightarrow>
             (let ai_response = strip reply;
                  actual_question = extract_first_question ai_response;
                  s' = session\<lparr>actual_questions := actual_questions session @ [actual_question],
                         actual_questions_asked := 1,
                         current_state := Questioning,
                         chat_history := chat_history session @
                           [(User, initial_prompt), (Assistant, Text ai_response)]\<rparr>
              in (Inr ai_response, put_session tok s' w1)))"

definition fallback_summary :: "string \<Rightarrow> pyval" where
  "fallback_summary text =
     PDict [(''overall_feedback'', PStr text), (''strengths'', PList []),
            (''areas_for_improvement'', PList []), (''average_rating'', PNone)]"

definition build_entry :: "interview_session \<Rightarrow> nat \<Rightarrow> py_error + log_entry" where
  \<comment> \<open>one element of the list comprehension; \<^verbatim>\<open>session["actual_questions"][i]\<close> is not guarded\<close>
  "build_entry s i =
     (if i < length (actual_questions s)
      then Inr \<lparr>entry_number = int i + 1,
                entry_question = actual_questions s ! i,
                entry_answer = (if i < length (answers s) then Some (answers s ! i) else None),
                entry_rating = (if i < length (ratings s) then Some (ratings s ! i) else None)\<rparr>
      else Inl IndexError)"

fun collect :: "('e + 'a) list \<Rightarrow> 'e + 'a list" where
  \<comment> \<open>the elements in order, up to the first one that raises\<close>
  "collect [] = Inr []"
| "collect (x # xs) =
     (case x of
        Inl e \<Rightarrow> Inl e
      | Inr v \<Rightarrow> (case collect xs of Inl e \<Rightarrow> Inl e | Inr vs \<Rightarrow> Inr (v # vs)))"

definition build_interview :: "interview_session \<Rightarrow> py_error + log_entry list" where
  \<comment> \<open>\<^verbatim>\<open>[... for i in range(session["actual_questions_asked"])]\<close>\<close>
  "build_interview s = collect (map (build_entry s) [0..<nat (actual_questions_asked s)])"

definition timedelta_seconds :: "instant \<Rightarrow> instant \<Rightarrow> int" where
  \<comment> \<open>\<^verbatim>\<open>(completed - started).seconds\<close>: the seconds of the normalised difference\<close>
  "timedelta_seconds c st = ((c - st) div 1000000) mod 86400"

fun split_slash :: "string \<Rightarrow> string list" where
  \<comment> \<open>the components of a path\<close>
  "split_slash [] = [[]]"
| "split_slash (c # cs) =
     (if c = CHR ''/'' then [] # split_slash cs
      else (case split_slash cs of [] \<Rightarrow> [[c]] | x # xs \<Rightarrow> (c # x) # xs))"

definition path_error :: "string \<Rightarrow> py_error option" where
  \<comment> \<open>what a path raises whatever the file system holds: \<^verbatim>\<open>ValueError\<close> for an embedded
      null byte, \<^verbatim>\<open>OSError\<close> for a component above 255 bytes or a path above 4095 bytes
      (the limits of Linux)\<close>
  "path_error p =
     (if CHR 0x00 \<in> set p then Some ValueError
      else if 4095 < length p \<or> list_ex (\<lambda>c. 255 < length c) (split_slash p) then Some OSError
      else None)"

definition write_error :: "world \<Rightarrow> string \<Rightarrow> py_error option" where
  \<comment> \<open>the exception of \<^verbatim>\<open>os.makedirs(p, exist_ok=True)\<close> or of \<^verbatim>\<open>open(p, "w")\<close>, if any\<close>
  "write_error w p = (case path_error p of Some e \<Rightarrow> Some e | None \<Rightarrow> fs_error w p)"

definition log_dir :: "string \<Rightarrow> string" where
  "log_dir safe_name = ''interview_logs/'' @ safe_name"

definition log_path :: "string \<Rightarrow> token \<Rightarrow> string" where
  "log_path safe_name tok = ''interview_logs/'' @ safe_name @ ''/interview_'' @ tok @ ''.json''"

definition save_interview_log ::
  "token \<Rightarrow> interview_session \<Rightarrow> world \<Rightarrow> (py_error + unit) \<times> world" where
  "save_interview_log tok session w =
     (let cfg = sess_config session in
      case candidate_name cfg of
        None \<Rightarrow> (Inl AttributeError, w)
      | Some name \<Rightarrow>
          (let safe_name = lower (replace_space name) in
           case write_error w (log_dir safe_name) of
             Some e \<Rightarrow> (Inl e, w)
           | None \<Rightarrow>
               (case build_interview session of
                  Inl e \<Rightarrow> (Inl e, w)
                | Inr entries \<Rightarrow>
                    (let log_data =
                           \<lparr>log_token = tok,
                            log_started_at = started_at session,
                            log_completed_at = completed_at session,
                            duration_minutes =
                              (case completed_at session of
                                 None \<Rightarrow> None
                               | Some c \<Rightarrow>
                                   Some (timedelta_seconds c (started_at session) div 60)),
                            log_name = candidate_name cfg,
                            log_email = email cfg,
                            log_role = role_subject cfg,
                            log_experience_level = experience_level cfg,
                            log_num_questions = num_questions cfg,
                            log_difficulty = difficulty cfg,
                            log_duration = duration cfg,
                            log_interview = entries,
                            log_summary =
                              (case final_summary session of
                                 Some v \<Rightarrow> v
                               | None \<Rightarrow> fallback_summary [])\<rparr>
                     in case write_error w (log_path safe_name tok) of
                          Some e \<Rightarrow> (Inl e, w)
                        | None \<Rightarrow>
                            (Inr (),
                             w\<lparr>interview_logs :=
                                  (interview_logs w)((safe_name, tok) \<mapsto> log_data)\<rparr>)))))"

definition thank_you :: string where
  "thank_you = ''Thank you for completing the interview. Your responses have been recorded''"

text \<open>
  \<^verbatim>\<open>json.loads\<close> is a parameter: the value of a JSON text, or \<open>None\<close> for
  \<^verbatim>\<open>JSONDecodeError\<close>.
\<close>

type_synonym json_loads = "string \<Rightarrow> pyval option"

definition generate_final_summary ::
  "gateway \<Rightarrow> json_loads \<Rightarrow> instant \<Rightarrow> token \<Rightarrow> string \<Rightarrow> world \<Rightarrow> (py_error + pydict) \<times> world" where
  "generate_final_summary chat loads now tok final_answer w =
     (case get_interview_session tok w of
        None \<Rightarrow> (Inr [(''error'', PStr ''Session not found'')], w)
      | Some session \<Rightarrow>
          (let prompt = Summary_prompt (actual_questions_asked session) final_answer;
               messages = chat_history session @
                 [(User, Text final_answer), (System, prompt)]
           in case chat 300 messages of
                None \<Rightarrow> (Inl GatewayError, w)
              | Some reply \<Rightarrow>
                  (let summary = strip reply;
                       summary_data =
                         (case loads summary of
                            Some v \<Rightarrow> v
                          | None \<Rightarrow> fallback_summary summary);
                       s' = session\<lparr>is_complete := True,
                              current_state := Complete,
                              final_summary := Some summary_data,
                              completed_at := Some now\<rparr>;
                       w1 = put_session tok s' w
                   in case save_interview_log tok s' w1 of
                        (Inl e, w2) \<Rightarrow> (Inl e, w2)
                      | (Inr u, w2) \<Rightarrow>
                          (Inr [(''response_text'', PStr thank_you),
                                (''question_number'', PInt (actual_questions_asked s')),
                                (''is_complete'', PBool True),
                                (''internal_summary'', PStr summary)], w2))))"

definition process_answer_and_get_next ::
  "gateway \<Rightarrow> json_loads \<Rightarrow> instant \<Rightarrow> token \<Rightarrow> string \<Rightarrow> world \<Rightarrow> (py_error + pydict) \<times> world" where
  "process_answer_and_get_next chat loads now tok ans w =
     (case get_interview_session tok w of
        None \<Rightarrow> (Inr [(''error'', PStr ''Session not found'')], w)
      | Some session \<Rightarrow>
          if is_complete session then (Inr [(''error'', PStr ''Interview already complete'')], w)
          else
            (let cfg = sess_config session;
                 max_questions = num_questions cfg;
                 current_q_num = actual_questions_asked session;
                 s1 = session\<lparr>answers := answers session @ [ans]\<rparr>;
                 w1 = put_session tok s1 w
             in if current_q_num \<ge> max_questions
                then generate_final_summary chat loads now tok ans w1
                else
                  (let next_q_num = current_q_num + 1;
                       s2 = s1\<lparr>actual_questions_asked := next_q_num\<rparr>;
                       w2 = put_session tok s2 w1;
                       prompt = Next_prompt current_q_num ans next_q_num (role_subject cfg)
                                  (max_questions - current_q_num);
                       messages = chat_history s2 @ [(User, Text ans), (System, prompt)]
                   in case chat 200 messages of
                        None \<Rightarrow> (Inl GatewayError, w2)
                      | Some reply \<Rightarrow>
                          (let ai_response = strip reply;
                               actual_question = extract_next_question next_q_num ai_response;
                               s3 = s2\<lparr>actual_questions := actual_questions s2 @ [actual_question],
                                      chat_history := chat_history s2 @
                                        [(Assistant, Text ai_response)]\<rparr>
                           in (Inr [(''response_text'', PStr ai_response),
                                    (''question_number'', PInt next_q_num),
                                    (''is_complete'', PBool False),
                                    (''questions_remaining'', PInt (max_questions - next_q_num))],
                               put_session tok s3 w2)))))"

definition state_name :: "interview_state \<Rightarrow> string" where
  "state_name st = (case st of Greeting \<Rightarrow> ''greeting'' | Questioning \<Rightarrow> ''questioning''
                    | Complete \<Rightarrow> ''complete'')"

definition get_interview_progress :: "token \<Rightarrow> world \<Rightarrow> pydict" where
  "get_interview_progress tok w =
     (case get_interview_session tok w of
        None \<Rightarrow> [(''error'', PStr ''Session not found'')]
      | Some session \<Rightarrow>
          (let max_questions = num_questions (sess_config session) in
           [(''current_question'', PInt (actual_questions_asked session)),
            (''total_questions'', PInt max_questions),
            (''questions_remaining'', PInt (max_questions - actual_questions_asked session)),
            (''is_complete'', PBool (is_complete session)),
            (''state'', PStr (state_name (current_state session)))]))"

definition reset_interview :: "token \<Rightarrow> world \<Rightarrow> world" where
  "reset_interview tok w =
     (if tok \<in> dom (interview_sessions w)
      then w\<lparr>interview_sessions := (interview_sessions w)(tok := None)\<rparr>
      else w)"

section \<open>The HTTP handlers (main.py)\<close>

definition load_test_config :: "token \<Rightarrow> world \<Rightarrow> config option \<times> world" where
  "load_test_config tok w =
     (case test_data_storage w tok of
        Some cfg \<Rightarrow> (Some cfg, w)
      | None \<Rightarrow>
          (case uploads w tok of
             Some cfg \<Rightarrow> (Some cfg, w\<lparr>test_data_storage := (test_data_storage w)(tok \<mapsto> cfg)\<rparr>)
           | None \<Rightarrow> (None, w)))"

definition fresh_state :: session_state where
  "fresh_state =
     \<lparr>current_stage = 1,
      stages = [1 \<mapsto> ''incomplete'', 2 \<mapsto> ''incomplete'', 3 \<mapsto> ''incomplete''],
      terminated = False, completed = False,
      termination_reason = None, terminated_at = None\<rparr>"

definition put_state :: "token \<Rightarrow> session_state \<Rightarrow> world \<Rightarrow> world" where
  \<comment> \<open>the state dict of a token after a mutation\<close>
  "put_state tok st w = w\<lparr>states := (states w)(tok \<mapsto> st)\<rparr>"

definition get_or_create_session_state :: "token \<Rightarrow> world \<Rightarrow> session_state \<times> world" where
  "get_or_create_session_state tok w =
     (case states w tok of
        None \<Rightarrow> (fresh_state, put_state tok fresh_state w)
      | Some st \<Rightarrow> (st, w))"

text \<open>The JSON body of the create-test request; \<open>None\<close> is a key the body does not carry.\<close>

record create_request =
  req_email :: "string option"
  req_name :: "string option"
  req_candidate_name :: "string option"
  req_phone :: "string option"
  req_experience_level :: "string option"
  req_role_subject :: "string option"
  req_difficulty :: "string option"
  req_duration :: "int option"
  req_numQuestions :: "int option"

datatype create_response =
    Email_not_sent token string
      \<comment> \<open>\<^verbatim>\<open>{"token": token, "email_sent": False, "error": str(e)}\<close>\<close>
  | Test_created token config
      \<comment> \<open>\<^verbatim>\<open>{"success": True, "token": token, "test_config": config, "email_sent": True}\<close>\<close>

text \<open>
  \<^verbatim>\<open>send_test_email\<close> is a parameter (recipient, token, candidate name): \<open>None\<close> when
  the mail went out, the text of the exception otherwise. The token is the fresh
  \<^verbatim>\<open>uuid4\<close> of the call.
\<close>

type_synonym mailer = "string option \<Rightarrow> token \<Rightarrow> string \<Rightarrow> string option"

definition create_test ::
  "mailer \<Rightarrow> instant \<Rightarrow> token \<Rightarrow> create_request \<Rightarrow> world \<Rightarrow> (create_response \<times> nat) \<times> world" where
  "create_test send_test_email now tok data w =
     (case send_test_email (req_email data) tok
             (case req_name data of None \<Rightarrow> ''Candidate'' | Some n \<Rightarrow> n) of
        Some e \<Rightarrow> ((Email_not_sent tok e, 201), w)
      | None \<Rightarrow>
          (let cfg = \<lparr>cfg_token = tok,
                      candidate_name = req_candidate_name data,
                      email = req_email data,
                      phone = req_phone data,
                      experience_level = req_experience_level data,
                      role_subject = req_role_subject data,
                      difficulty = req_difficulty data,
                      duration = (case req_duration data of None \<Rightarrow> 60 | Some d \<Rightarrow> d),
                      num_questions = (case req_numQuestions data of None \<Rightarrow> 5 | Some n \<Rightarrow> n),
                      created_at = now,
                      status = ''pending''\<rparr>;
               w1 = w\<lparr>uploads := (uploads w)(tok \<mapsto> cfg)\<rparr>;
               w2 = w1\<lparr>test_data_storage := (test_data_storage w1)(tok \<mapsto> cfg)\<rparr>;
               w3 = snd (get_or_create_session_state tok w2)
           in ((Test_created tok cfg, 200), w3)))"

definition py_get :: "pydict \<Rightarrow> string \<Rightarrow> pyval \<Rightarrow> pyval" where
  \<comment> \<open>\<^verbatim>\<open>d.get(key, default)\<close>\<close>
  "py_get d k dflt = (case map_of d k of None \<Rightarrow> dflt | Some v \<Rightarrow> v)"

text \<open>
  \<^verbatim>\<open>text_to_speech\<close> is a parameter: the audio bytes, or \<open>None\<close> (it catches its own
  exceptions).
\<close>

type_synonym speech = "string \<Rightarrow> string option"

definition audio_for :: "speech \<Rightarrow> token \<Rightarrow> pydict \<Rightarrow> world \<Rightarrow> pyval \<times> world" where
  \<comment> \<open>the audio of a response: the url (or \<^verbatim>\<open>None\<close>) and the file written\<close>
  "audio_for tts tok result w =
     (case py_get result ''response_text'' PNone of
        PStr rt \<Rightarrow>
          (if rt = [] then (PNone, w)
           else
             (case tts rt of
                None \<Rightarrow> (PNone, w)
              | Some audio_content \<Rightarrow>
                  if audio_content = [] then (PNone, w)
                  else
                    (let q_num =
                           (case py_get result ''question_number'' (PInt 0) of
                              PInt n \<Rightarrow> str_int n
                            | _ \<Rightarrow> []);
                         audio_filename = ''audio_'' @ tok @ ''_q'' @ q_num @ ''.mp3''
                     in (PStr (''/audio/'' @ audio_filename),
                         w\<lparr>audio_files := (audio_files w)(audio_filename \<mapsto> audio_content)\<rparr>))))
      | _ \<Rightarrow> (PNone, w))"

definition submit_text_answer ::
  "gateway \<Rightarrow> json_loads \<Rightarrow> speech \<Rightarrow> instant \<Rightarrow> token \<Rightarrow> string option \<Rightarrow> world
     \<Rightarrow> (py_error + pydict \<times> nat) \<times> world" where
  "submit_text_answer chat loads tts now tok text w =
     (case get_interview_session tok w of
        None \<Rightarrow> (Inr ([(''error'', PStr ''Interview not started'')], 404), w)
      | Some interview_session \<Rightarrow>
          (let ans = strip (case text of None \<Rightarrow> [] | Some t \<Rightarrow> t) in
           if ans = [] then (Inr ([(''error'', PStr ''No answer provided'')], 400), w)
           else
             (case process_answer_and_get_next chat loads now tok ans w of
                (Inl e, w1) \<Rightarrow> (Inl e, w1)
              | (Inr result, w1) \<Rightarrow>
                  if map_of result ''error'' \<noteq> None then (Inr (result, 400), w1)
                  else
                    (let (audio_url, w2) = audio_for tts tok result w1
                     in (Inr ([(''response_text'', py_get result ''response_text'' (PStr [])),
                               (''audio_url'', audio_url),
                               (''question_number'', py_get result ''question_number'' (PInt 0)),
                               (''is_complete'', py_get result ''is_complete'' (PBool False)),
                               (''questions_remaining'',
                                  py_get result ''questions_remaining'' (PInt 0))], 200),
                         w2)))))"

datatype redirect_target = View string | Stage int

datatype access_response =
    Invalid_token
      \<comment> \<open>\<^verbatim>\<open>{'allowed': False, 'message': 'Invalid token'}\<close>\<close>
  | Redirect redirect_target
      \<comment> \<open>\<^verbatim>\<open>{'allowed': False, 'redirect': target}\<close>\<close>
  | Allowed session_state config
      \<comment> \<open>\<^verbatim>\<open>{'allowed': True, 'token_state': state, 'session_data': config}\<close>\<close>

definition validate_stage_access ::
  "token \<Rightarrow> int \<Rightarrow> world \<Rightarrow> (access_response \<times> nat) \<times> world" where
  "validate_stage_access tok stage w =
     (case load_test_config tok w of
        (None, w1) \<Rightarrow> ((Invalid_token, 404), w1)
      | (Some cfg, w1) \<Rightarrow>
          (let (st, w2) = get_or_create_session_state tok w1 in
           if terminated st then ((Redirect (View ''terminated''), 200), w2)
           else if completed st then ((Redirect (View ''feedback''), 200), w2)
           else if stage < current_stage st then ((Redirect (Stage (current_stage st)), 200), w2)
           else if stage > current_stage st then ((Redirect (Stage (current_stage st)), 200), w2)
           else ((Allowed st cfg, 200), w2)))"

definition update_stage :: "token \<Rightarrow> int \<Rightarrow> string \<Rightarrow> world \<Rightarrow> session_state \<times> world" where
  \<comment> \<open>the response is \<^verbatim>\<open>{'success': True, 'token_state': state}\<close>\<close>
  "update_stage tok stage stat w =
     (let (st, w1) = get_or_create_session_state tok w;
          st' =
            (if stage \<in> set [1, 2, 3]
             then
               (let st1 = st\<lparr>stages := (stages st)(stage \<mapsto> stat)\<rparr> in
                if stat = ''complete''
                then (if stage < 3 then st1\<lparr>current_stage := stage + 1\<rparr>
                      else st1\<lparr>completed := True\<rparr>)
                else st1)
             else st)
      in (st', put_state tok st' w1))"

record violation_request =
  req_type :: "string option"
  req_timestamp :: "string option"
  req_details :: "string option"

record violation_response =
  violation_count :: nat
  max_reached :: bool

definition record_violation ::
  "instant \<Rightarrow> token \<Rightarrow> violation_request \<Rightarrow> world \<Rightarrow> violation_response \<times> world" where
  \<comment> \<open>the response is \<^verbatim>\<open>{'success': True, 'violation_count': count, 'max_reached': count >= 10}\<close>\<close>
  "record_violation now tok data w =
     (let v = \<lparr>vtype = req_type data,
                vtimestamp = (case req_timestamp data of None \<Rightarrow> Server_time now
                              | Some t \<Rightarrow> Reported t),
                details = (case req_details data of None \<Rightarrow> [] | Some d \<Rightarrow> d)\<rparr>;
          old = (case violations w tok of None \<Rightarrow> [] | Some vs \<Rightarrow> vs);
          w1 = w\<lparr>violations := (violations w)(tok \<mapsto> old @ [v])\<rparr>;
          count = length (old @ [v]);
          w2 = (if count \<ge> 10
                then (let (st, w') = get_or_create_session_state tok w1
                      in put_state tok (st\<lparr>terminated := True\<rparr>) w')
                else w1)
      in (\<lparr>violation_count = count, max_reached = (count \<ge> 10)\<rparr>, w2))"

definition terminate_test :: "instant \<Rightarrow> token \<Rightarrow> string option \<Rightarrow> world \<Rightarrow> string \<times> world" where
  \<comment> \<open>the response is \<^verbatim>\<open>{"success": True, "message": f"Test terminated: {reason}"}\<close>\<close>
  "terminate_test now tok reason_opt w =
     (let reason = (case reason_opt of None \<Rightarrow> ''No reason provided'' | Some r \<Rightarrow> r);
          (st, w1) = get_or_create_session_state tok w;
          st' = st\<lparr>terminated := True, termination_reason := Some reason,
                   terminated_at := Some now\<rparr>
      in (''Test terminated: '' @ reason, put_state tok st' w1))"

section \<open>Example states\<close>

definition cfg0 :: config where
  "cfg0 = \<lparr>cfg_token = ''t1'', candidate_name = Some ''Ada Byron'',
     email = Some ''ada@example.org'', phone = None, experience_level = Some ''senior'',
     role_subject = Some ''Python'', difficulty = Some ''medium'', duration = 60,
     num_questions = 2, created_at = 0, status = ''pending''\<rparr>"

definition w_cfg :: world where
  \<comment> \<open>after \<^verbatim>\<open>create_test\<close>, before the first access to the session state\<close>
  "w_cfg = empty_world\<lparr>test_data_storage := [''t1'' \<mapsto> cfg0], uploads := [''t1'' \<mapsto> cfg0]\<rparr>"

definition chat_q1 :: gateway where
  "chat_q1 = (\<lambda>max_tokens messages. Some ''Welcome, Ada. Question 1: What is a list?'')"

definition chat_q2 :: gateway where
  "chat_q2 = (\<lambda>max_tokens messages. Some '' What is a dict? '')"

definition chat_prose :: gateway where
  \<comment> \<open>a reply that is not JSON\<close>
  "chat_prose = (\<lambda>max_tokens messages. Some ''Solid answers overall.'')"

definition chat_down :: gateway where
  \<comment> \<open>the provider cannot be reached: every call raises\<close>
  "chat_down = (\<lambda>max_tokens messages. None)"

definition loads_fail :: json_loads where
  "loads_fail = (\<lambda>text. None)"

definition tts_off :: speech where
  "tts_off = (\<lambda>text. None)"

definition mail_down :: mailer where
  "mail_down = (\<lambda>recipient tok name. Some ''Connection refused'')"

definition request0 :: create_request where
  "request0 = \<lparr>req_email = Some ''ada@example.org'', req_name = None,
     req_candidate_name = Some ''Ada Byron'', req_phone = None,
     req_experience_level = Some ''senior'', req_role_subject = Some ''Python'',
     req_difficulty = Some ''medium'', req_duration = Some 60, req_numQuestions = Some 2\<rparr>"

definition violation0 :: violation_request where
  "violation0 = \<lparr>req_type = Some ''tab_switch'', req_timestamp = None, req_details = None\<rparr>"

fun record_many :: "nat \<Rightarrow> world \<Rightarrow> world" where
  \<comment> \<open>that many violation reports for the token \<open>t1\<close>\<close>
  "record_many 0 w = w"
| "record_many (Suc n) w = snd (record_violation 7 ''t1'' violation0 (record_many n w))"

definition w_started :: world where
  \<comment> \<open>the interview of \<open>t1\<close> after its first question\<close>
  "w_started = snd (start_structured_interview chat_q1 0 ''t1'' cfg0 w_cfg)"

definition s_started :: interview_session where
  "s_started =
     \<lparr>sess_config = cfg0,
      system_prompt = build_system_prompt cfg0,
      chat_history =
        [build_system_prompt cfg0,
         (User, Initial_prompt (Some ''Ada Byron'') (Some ''Python'') (Some ''medium'')),
         (Assistant, Text ''Welcome, Ada. Question 1: What is a list?'')],
      actual_questions_asked = 1,
      actual_questions = [''What is a list?''],
      answers = [], ratings = [], is_complete = False,
      current_state = Questioning, started_at = 0,
      final_summary = None, completed_at = None\<rparr>"

definition w_second :: world where
  \<comment> \<open>after the first answer: the second and last question is asked\<close>
  "w_second =
     snd (process_answer_and_get_next chat_q2 loads_fail 5 ''t1'' ''A sequence.'' w_started)"

definition s_second :: interview_session where
  "s_second =
     s_started\<lparr>chat_history := chat_history s_started @ [(Assistant, Text ''What is a dict?'')],
       actual_questions_asked := 2,
       actual_questions := [''What is a list?'', ''What is a dict?''],
       answers := [''A sequence.'']\<rparr>"

definition w_done :: world where
  \<comment> \<open>after the last answer: the interview is complete\<close>
  "w_done =
     snd (process_answer_and_get_next chat_prose loads_fail 9 ''t1'' ''A mapping.'' w_second)"

definition s_done :: interview_session where
  "s_done =
     s_second\<lparr>answers := [''A sequence.'', ''A mapping.''],
       is_complete := True, current_state := Complete,
       final_summary := Some (fallback_summary ''Solid answers overall.''),
       completed_at := Some 9\<rparr>"

definition w_gateway_failed :: world where
  \<comment> \<open>the first answer arrives while the provider cannot be reached\<close>
  "w_gateway_failed =
     snd (process_answer_and_get_next chat_down loads_fail 5 ''t1'' ''A sequence.'' w_started)"

definition w_anonymous :: world where
  \<comment> \<open>an interview whose create-test request carried no \<^verbatim>\<open>candidate_name\<close>\<close>
  "w_anonymous =
     snd (start_structured_interview chat_q1 0 ''t2''
            (cfg0\<lparr>cfg_token := ''t2'', candidate_name := None\<rparr>) empty_world)"

definition w_long_name :: world where
  \<comment> \<open>an interview whose candidate name has 300 characters\<close>
  "w_long_name =
     snd (start_structured_interview chat_q1 0 ''t3''
            (cfg0\<lparr>cfg_token := ''t3'', candidate_name := Some (replicate 300 CHR ''x'')\<rparr>)
            empty_world)"

definition w_zero :: world where
  \<comment> \<open>an interview whose create-test request asked for no question\<close>
  "w_zero =
     snd (start_structured_interview chat_q1 0 ''t0''
            (cfg0\<lparr>cfg_token := ''t0'', num_questions := 0\<rparr>) empty_world)"

section \<open>Runs\<close>

fun update_stages :: "token \<Rightarrow> (int \<times> string) list \<Rightarrow> world \<Rightarrow> world" where
  \<comment> \<open>a sequence of update-stage requests for one token\<close>
  "update_stages tok [] w = w"
| "update_stages tok ((stage, stat) # us) w =
     update_stages tok us (snd (update_stage tok stage stat w))"

text \<open>
  The states of the interview engine reached from a process without sessions by calls of
  \<open>start_structured_interview\<close>, \<open>process_answer_and_get_next\<close> (which calls
  \<open>generate_final_summary\<close>) and \<open>reset_interview\<close> in which the chat completion
  returned; \<open>get_interview_progress\<close> returns a dict and leaves the state as it is.
\<close>

inductive reachable :: "world \<Rightarrow> bool" where
  reachable_init: "interview_sessions w = Map.empty \<Longrightarrow> reachable w"
| reachable_start:
    "reachable w \<Longrightarrow> start_structured_interview chat now tok cfg w = (Inr r, w') \<Longrightarrow>
     reachable w'"
| reachable_submit:
    "reachable w \<Longrightarrow> process_answer_and_get_next chat loads now tok ans w = (res, w') \<Longrightarrow>
     res \<noteq> Inl GatewayError \<Longrightarrow> reachable w'"
| reachable_reset: "reachable w \<Longrightarrow> reachable (reset_interview tok w)"

definition session_ok :: "interview_session \<Rightarrow> bool" where
  \<comment> \<open>the invariant of a session in such a state\<close>
  "session_ok s \<longleftrightarrow>
     actual_questions_asked s = int (length (actual_questions s)) \<and>
     length (answers s) + (if is_complete s then 0 else 1) = length (actual_questions s) \<and>
     actual_questions_asked s \<le> max 1 (num_questions (sess_config s))"

section \<open>Properties\<close>

subsection \<open>Field lemmas\<close>

lemma interview_sessions_put_session [simp]:
  "interview_sessions (put_session tok s w) = (interview_sessions w)(tok \<mapsto> s)"
  by (simp add: put_session_def)

lemma states_put_state [simp]: "states (put_state tok st w) = (states w)(tok \<mapsto> st)"
  by (simp add: put_state_def)

lemma states_load_test_config [simp]: "states (snd (load_test_config tok w)) = states w"
  by (simp add: load_test_config_def split: option.splits)

lemma fst_get_or_create_load [simp]:
  "fst (get_or_create_session_state tok (snd (load_test_config tok w))) =
   fst (get_or_create_session_state tok w)"
  by (simp add: get_or_create_session_state_def split: option.splits)

lemma get_or_create_states:
  "states (snd (get_or_create_session_state tok w)) tok =
   Some (fst (get_or_create_session_state tok w))"
  by (simp add: get_or_create_session_state_def split: option.splits)

lemma get_or_create_after_put [simp]:
  "get_or_create_session_state tok (put_state tok st w) = (st, put_state tok st w)"
  by (simp add: get_or_create_session_state_def)

lemma interview_sessions_reset [simp]:
  "interview_sessions (reset_interview tok w) = (interview_sessions w)(tok := None)"
  by (auto simp: reset_interview_def fun_eq_iff)

lemma write_error_put_session [simp]: "write_error (put_session tok s w) p = write_error w p"
  by (simp add: write_error_def put_session_def split: option.splits)

lemma interview_sessions_save [simp]:
  "interview_sessions (snd (save_interview_log tok s w)) = interview_sessions w"
  by (simp add: save_interview_log_def Let_def split: option.splits sum.splits)

subsection \<open>Text\<close>

lemma all_dropWhile_iff: "(\<forall>x\<in>set (dropWhile P xs). P x) \<longleftrightarrow> dropWhile P xs = []"
proof
  assume a: "\<forall>x\<in>set (dropWhile P xs). P x"
  show "dropWhile P xs = []"
  proof (rule ccontr)
    assume n: "dropWhile P xs \<noteq> []"
    then have "\<not> P (hd (dropWhile P xs))" by (rule hd_dropWhile)
    moreover have "hd (dropWhile P xs) \<in> set (dropWhile P xs)" using n by simp
    ultimately show False using a by blast
  qed
qed (auto dest: set_dropWhileD)

lemma strip_empty_iff: "strip t = [] \<longleftrightarrow> (\<forall>c\<in>set t. is_space c)"
  by (simp add: strip_def all_dropWhile_iff)

subsection \<open>The example interview\<close>

lemma sessions_w_cfg: "interview_sessions w_cfg = Map.empty"
  by (simp add: w_cfg_def empty_world_def)

lemma session_w_started: "interview_sessions w_started ''t1'' = Some s_started"
  by code_simp

lemma session_w_second: "interview_sessions w_second ''t1'' = Some s_second"
  by code_simp

lemma start_session_exists:
  "interview_sessions (snd (start_structured_interview chat now tok cfg w)) tok \<noteq> None"
  by (simp add: start_structured_interview_def initialize_interview_session_def Let_def
           split: option.splits)

subsection \<open>Stage access\<close>

text \<open>
  C7. For a token whose configuration is known, \<open>validate_stage_access\<close> redirects to
  the view \<open>terminated\<close> when the session state is terminated, otherwise to the view
  \<open>feedback\<close> when it is completed, otherwise to the current stage when the requested
  stage differs from it (below or above), and allows the request otherwise. So the
  request is allowed exactly when the state is neither terminated nor completed and the
  requested stage is the current stage: never at a stage ahead of it.
\<close>

theorem validate_stage_access_gate:
  assumes "fst (load_test_config tok w) = Some cfg"
  shows "fst (validate_stage_access tok stage w) =
           (let st = fst (get_or_create_session_state tok w) in
            if terminated st then (Redirect (View ''terminated''), 200)
            else if completed st then (Redirect (View ''feedback''), 200)
            else if stage \<noteq> current_stage st then (Redirect (Stage (current_stage st)), 200)
            else (Allowed st cfg, 200))
         \<and> ((\<exists>st c. fst (fst (validate_stage_access tok stage w)) = Allowed st c) \<longleftrightarrow>
              \<not> terminated (fst (get_or_create_session_state tok w)) \<and>
              \<not> completed (fst (get_or_create_session_state tok w)) \<and>
              stage = current_stage (fst (get_or_create_session_state tok w)))"
proof -
  obtain w1 where l: "load_test_config tok w = (Some cfg, w1)"
    using assms by (cases "load_test_config tok w") simp
  have s: "fst (get_or_create_session_state tok w1) = fst (get_or_create_session_state tok w)"
    using fst_get_or_create_load [of tok w] l by simp
  obtain st w2 where g: "get_or_create_session_state tok w1 = (st, w2)"
    by (cases "get_or_create_session_state tok w1")
  have st: "fst (get_or_create_session_state tok w) = st"
    using s g by simp
  show ?thesis
    unfolding st by (simp add: validate_stage_access_def l g Let_def)
qed

theorem validate_stage_access_gate_witness:
  "fst (load_test_config ''t1'' w_cfg) = Some cfg0 \<and>
   fst (validate_stage_access ''t1'' 2 w_cfg) = (Redirect (Stage 1), 200) \<and>
   fst (validate_stage_access ''t1'' 1 w_cfg) = (Allowed fresh_state cfg0, 200)"
proof -
  have h: "fst (load_test_config ''t1'' w_cfg) = Some cfg0"
    by (simp add: load_test_config_def w_cfg_def empty_world_def)
  have g: "fst (get_or_create_session_state ''t1'' w_cfg) = fresh_state"
    by (simp add: get_or_create_session_state_def w_cfg_def empty_world_def)
  have f: "\<not> terminated fresh_state" "\<not> completed fresh_state" "current_stage fresh_state = 1"
    by (simp_all add: fresh_state_def)
  from validate_stage_access_gate [OF h, of 2] validate_stage_access_gate [OF h, of 1] h g f
  show ?thesis by (simp add: Let_def)
qed

subsection \<open>Submitting an answer\<close>

text \<open>
  C10. In \<open>submit_text_answer\<close> the check for the interview session comes first: without
  a session the response is 404 \<open>Interview not started\<close> whatever the text is, also when
  it is empty or absent. With a session, a text that is absent, empty or made of white
  space only gives 400 \<open>No answer provided\<close>, and the whole state, so the session with
  its answers, counter and transcript, is what it was.
\<close>

theorem submit_text_answer_checks:
  "(interview_sessions w tok = None \<longrightarrow>
      submit_text_answer chat loads tts now tok text w =
        (Inr ([(''error'', PStr ''Interview not started'')], 404), w)) \<and>
   (interview_sessions w tok \<noteq> None \<and>
    (\<forall>c\<in>set (case text of None \<Rightarrow> [] | Some t \<Rightarrow> t). is_space c) \<longrightarrow>
      submit_text_answer chat loads tts now tok text w =
        (Inr ([(''error'', PStr ''No answer provided'')], 400), w))"
  by (auto simp: submit_text_answer_def get_interview_session_def strip_empty_iff Let_def
           split: option.splits)

theorem submit_text_answer_checks_witness:
  "interview_sessions w_cfg ''t1'' = None \<and>
   submit_text_answer chat_q2 loads_fail tts_off 5 ''t1'' (Some []) w_cfg =
     (Inr ([(''error'', PStr ''Interview not started'')], 404), w_cfg) \<and>
   interview_sessions w_started ''t1'' \<noteq> None \<and>
   submit_text_answer chat_q2 loads_fail tts_off 5 ''t1'' (Some ''   '') w_started =
     (Inr ([(''error'', PStr ''No answer provided'')], 400), w_started)"
proof -
  have a: "interview_sessions w_cfg ''t1'' = None"
    by (simp add: sessions_w_cfg)
  have b: "interview_sessions w_started ''t1'' \<noteq> None"
    unfolding w_started_def by (rule start_session_exists)
  have c: "\<forall>c\<in>set (case Some ''   '' of None \<Rightarrow> [] | Some t \<Rightarrow> t). is_space c"
    by (simp add: is_space_def)
  from submit_text_answer_checks [of w_cfg "''t1''" chat_q2 loads_fail tts_off 5 "Some []"]
       submit_text_answer_checks [of w_started "''t1''" chat_q2 loads_fail tts_off 5
         "Some ''   ''"]
       a b c
  show ?thesis by blast
qed

text \<open>
  C1, as the code has it. For a session that exists, is not complete and has asked fewer
  questions than configured, when the chat completion returns a reply,
  \<open>process_answer_and_get_next\<close> appends the answer to the answers, raises
  \<open>actual_questions_asked\<close> by one, appends the question text extracted from the stripped
  reply to the questions, appends the stripped reply as one assistant message to the
  stored transcript, and returns the stripped reply, the new question number,
  \<open>is_complete = False\<close> and \<open>num_questions - (asked + 1)\<close>. The answer and the
  instruction go into the copy of the transcript that is sent to the model, not into the
  stored one.
\<close>

theorem process_answer_next_question:
  assumes "interview_sessions w tok = Some s"
    and "\<not> is_complete s"
    and "actual_questions_asked s < num_questions (sess_config s)"
    and "chat 200 (chat_history s @
           [(User, Text ans),
            (System, Next_prompt (actual_questions_asked s) ans (actual_questions_asked s + 1)
               (role_subject (sess_config s))
               (num_questions (sess_config s) - actual_questions_asked s))]) = Some reply"
  shows "process_answer_and_get_next chat loads now tok ans w =
           (Inr [(''response_text'', PStr (strip reply)),
                 (''question_number'', PInt (actual_questions_asked s + 1)),
                 (''is_complete'', PBool False),
                 (''questions_remaining'',
                    PInt (num_questions (sess_config s) - (actual_questions_asked s + 1)))],
            put_session tok
              (s\<lparr>answers := answers s @ [ans],
                 actual_questions_asked := actual_questions_asked s + 1,
                 actual_questions := actual_questions s @
                   [extract_next_question (actual_questions_asked s + 1) (strip reply)],
                 chat_history := chat_history s @ [(Assistant, Text (strip reply))]\<rparr>) w)"
  using assms
  by (simp add: process_answer_and_get_next_def get_interview_session_def Let_def put_session_def)

theorem process_answer_next_question_witness:
  "interview_sessions w_started ''t1'' = Some s_started \<and>
   \<not> is_complete s_started \<and>
   actual_questions_asked s_started < num_questions (sess_config s_started) \<and>
   fst (process_answer_and_get_next chat_q2 loads_fail 5 ''t1'' ''A sequence.'' w_started) =
     Inr [(''response_text'', PStr ''What is a dict?''),
          (''question_number'', PInt 2),
          (''is_complete'', PBool False),
          (''questions_remaining'', PInt 0)]"
proof -
  have h2: "\<not> is_complete s_started"
    by (simp add: s_started_def)
  have h3: "actual_questions_asked s_started < num_questions (sess_config s_started)"
    by (simp add: s_started_def cfg0_def)
  have h4: "chat_q2 200 (chat_history s_started @
           [(User, Text ''A sequence.''),
            (System, Next_prompt (actual_questions_asked s_started) ''A sequence.''
               (actual_questions_asked s_started + 1)
               (role_subject (sess_config s_started))
               (num_questions (sess_config s_started) - actual_questions_asked s_started))]) =
           Some '' What is a dict? ''"
    by (simp add: chat_q2_def)
  have st: "strip '' What is a dict? '' = ''What is a dict?''"
    by (simp add: strip_def is_space_def)
  from process_answer_next_question
         [where chat = chat_q2 and loads = loads_fail and now = 5, OF session_w_started h2 h3 h4]
       session_w_started h2 h3
  show ?thesis by (simp add: st s_started_def cfg0_def)
qed

text \<open>
  The claim C1 as it is written fails on the transcript: after the first answer of the
  example interview the stored transcript has grown by the assistant message alone, not
  by the instruction and the reply.
\<close>

theorem process_answer_transcript_counterexample:
  "map_option chat_history
     (interview_sessions
        (snd (process_answer_and_get_next chat_q2 loads_fail 5 ''t1'' ''A sequence.'' w_started))
        ''t1'') =
     Some (chat_history s_started @ [(Assistant, Text ''What is a dict?'')]) \<and>
   map_option chat_history
     (interview_sessions
        (snd (process_answer_and_get_next chat_q2 loads_fail 5 ''t1'' ''A sequence.'' w_started))
        ''t1'') \<noteq>
     Some (chat_history s_started @
             [(System, Next_prompt 1 ''A sequence.'' 2 (Some ''Python'') 1),
              (Assistant, Text ''What is a dict?'')])"
  by code_simp

subsection \<open>Reset and restart\<close>

text \<open>
  C9. \<open>reset_interview\<close> removes the session of the token. A following
  \<open>start_structured_interview\<close> whose chat completion returns a reply gives the session
  of a fresh start: one question asked, no answers, the questions holding only the first
  question extracted from the reply, the transcript holding only the new system prompt,
  the initial instruction and the reply. It is the session the same call creates in a
  process that never had a session, so nothing of the earlier run is left in it.
\<close>

theorem reset_then_start_is_fresh:
  assumes "chat 200 [build_system_prompt cfg,
             (User, Initial_prompt (candidate_name cfg) (role_subject cfg) (difficulty cfg))] =
           Some reply"
  shows "interview_sessions (reset_interview tok w) tok = None \<and>
         fst (start_structured_interview chat now tok cfg (reset_interview tok w)) =
           Inr (strip reply) \<and>
         interview_sessions
           (snd (start_structured_interview chat now tok cfg (reset_interview tok w))) tok =
           Some \<lparr>sess_config = cfg,
                 system_prompt = build_system_prompt cfg,
                 chat_history =
                   [build_system_prompt cfg,
                    (User, Initial_prompt (candidate_name cfg) (role_subject cfg)
                       (difficulty cfg)),
                    (Assistant, Text (strip reply))],
                 actual_questions_asked = 1,
                 actual_questions = [extract_first_question (strip reply)],
                 answers = [], ratings = [], is_complete = False,
                 current_state = Questioning, started_at = now,
                 final_summary = None, completed_at = None\<rparr> \<and>
         interview_sessions
           (snd (start_structured_interview chat now tok cfg (reset_interview tok w))) tok =
         interview_sessions (snd (start_structured_interview chat now tok cfg empty_world)) tok"
  using assms
  by (simp add: start_structured_interview_def initialize_interview_session_def Let_def)

theorem reset_then_start_is_fresh_witness:
  "chat_q1 200 [build_system_prompt cfg0,
      (User, Initial_prompt (candidate_name cfg0) (role_subject cfg0) (difficulty cfg0))] =
     Some ''Welcome, Ada. Question 1: What is a list?'' \<and>
   interview_sessions w_second ''t1'' = Some s_second \<and>
   interview_sessions (reset_interview ''t1'' w_second) ''t1'' = None \<and>
   interview_sessions
     (snd (start_structured_interview chat_q1 20 ''t1'' cfg0 (reset_interview ''t1'' w_second)))
     ''t1'' = Some (s_started\<lparr>started_at := 20\<rparr>)"
proof -
  have h: "chat_q1 200 [build_system_prompt cfg0,
      (User, Initial_prompt (candidate_name cfg0) (role_subject cfg0) (difficulty cfg0))] =
     Some ''Welcome, Ada. Question 1: What is a list?''"
    by (simp add: chat_q1_def)
  have st: "strip ''Welcome, Ada. Question 1: What is a list?'' =
            ''Welcome, Ada. Question 1: What is a list?''"
    by (simp add: strip_def is_space_def)
  have ex: "extract_first_question ''Welcome, Ada. Question 1: What is a list?'' =
            ''What is a list?''"
    by code_simp
  from reset_then_start_is_fresh
         [where chat = chat_q1 and tok = "''t1''" and w = w_second and now = 20, OF h] h session_w_second
  show ?thesis by (simp add: st ex s_started_def cfg0_def)
qed

subsection \<open>Stage updates\<close>

lemma update_stage_state:
  "snd (update_stage tok stage stat w) =
   put_state tok (fst (update_stage tok stage stat w)) (snd (get_or_create_session_state tok w))"
  by (simp add: update_stage_def Let_def split: prod.splits)

lemma update_stage_current:
  "current_stage (fst (update_stage tok stage stat w)) =
     (if (stage = 1 \<or> stage = 2) \<and> stat = ''complete'' then stage + 1
      else current_stage (fst (get_or_create_session_state tok w)))"
  by (auto simp: update_stage_def Let_def split: prod.splits)

lemma update_stage_completed:
  "completed (fst (update_stage tok stage stat w)) =
     (completed (fst (get_or_create_session_state tok w)) \<or> stage = 3 \<and> stat = ''complete'')"
  by (auto simp: update_stage_def Let_def split: prod.splits)

lemma update_stages_range:
  "current_stage (fst (get_or_create_session_state tok w)) \<in> {1, 2, 3} \<Longrightarrow>
   current_stage (fst (get_or_create_session_state tok (update_stages tok us w))) \<in> {1, 2, 3}"
proof (induction us arbitrary: w)
  case Nil
  then show ?case by simp
next
  case (Cons u us)
  obtain stage stat where u: "u = (stage, stat)" by (cases u)
  have "fst (get_or_create_session_state tok (snd (update_stage tok stage stat w))) =
        fst (update_stage tok stage stat w)"
    by (simp add: update_stage_state)
  then have "current_stage
      (fst (get_or_create_session_state tok (snd (update_stage tok stage stat w)))) \<in> {1, 2, 3}"
    using Cons.prems by (auto simp: update_stage_current)
  then show ?case using Cons.IH u by simp
qed

lemma w_cfg_stage: "current_stage (fst (get_or_create_session_state ''t1'' w_cfg)) = 1"
  by (simp add: get_or_create_session_state_def w_cfg_def empty_world_def fresh_state_def)

text \<open>
  C3, as the code has it. \<open>update_stage\<close> does not compare the reported stage with the
  current one: a report that stage 1 or 2 is complete sets \<open>current_stage\<close> to that
  stage plus one, whatever the current stage is, so the current stage advances by
  exactly one when the reported stage is the current stage. Every other request leaves
  \<open>current_stage\<close> as it is; a report that stage 3 is complete sets \<open>completed\<close> and
  does not change \<open>current_stage\<close>. The state is stored under the token, and after any
  sequence of update-stage requests the current stage is still one of 1, 2, 3.
\<close>

theorem update_stage_sets_stage:
  assumes "current_stage (fst (get_or_create_session_state tok w)) \<in> {1, 2, 3}"
  shows "current_stage (fst (update_stage tok stage stat w)) =
           (if (stage = 1 \<or> stage = 2) \<and> stat = ''complete'' then stage + 1
            else current_stage (fst (get_or_create_session_state tok w))) \<and>
         completed (fst (update_stage tok stage stat w)) =
           (completed (fst (get_or_create_session_state tok w)) \<or>
            stage = 3 \<and> stat = ''complete'') \<and>
         states (snd (update_stage tok stage stat w)) tok =
           Some (fst (update_stage tok stage stat w)) \<and>
         current_stage (fst (get_or_create_session_state tok (update_stages tok us w)))
           \<in> {1, 2, 3}"
  using assms update_stages_range [of tok w us]
  by (simp add: update_stage_current update_stage_completed update_stage_state)

theorem update_stage_sets_stage_witness:
  "current_stage (fst (get_or_create_session_state ''t1'' w_cfg)) \<in> {1, 2, 3} \<and>
   current_stage (fst (update_stage ''t1'' 1 ''complete'' w_cfg)) = 2 \<and>
   current_stage (fst (update_stage ''t1'' 3 ''complete'' w_cfg)) = 1 \<and>
   completed (fst (update_stage ''t1'' 3 ''complete'' w_cfg))"
proof -
  have h: "current_stage (fst (get_or_create_session_state ''t1'' w_cfg)) \<in> {1, 2, 3}"
    by (simp add: w_cfg_stage)
  from update_stage_sets_stage [OF h, of 1 "''complete''" "[]"]
       update_stage_sets_stage [OF h, of 3 "''complete''" "[]"] h
  show ?thesis by (simp add: w_cfg_stage)
qed

text \<open>
  The claim C3 as it is written fails: from the fresh state (stage 1) a report that stage
  2 is complete moves the current stage to 3, two steps ahead, and a following report
  that stage 1 is complete moves it back to 2.
\<close>

theorem update_stage_monotone_counterexample:
  "current_stage (fst (get_or_create_session_state ''t1'' w_cfg)) = 1 \<and>
   current_stage (fst (update_stage ''t1'' 2 ''complete'' w_cfg)) = 3 \<and>
   current_stage (fst (update_stage ''t1'' 1 ''complete''
      (snd (update_stage ''t1'' 2 ''complete'' w_cfg)))) = 2"
  by (simp add: update_stage_current w_cfg_stage)

subsection \<open>Violations\<close>

text \<open>
  C4, as the code has it. \<open>record_violation\<close> appends the violation to the list of the
  token, with the time of the call when the request carries no timestamp, and returns
  the new length of the list. When that length is 10 or more it sets \<open>terminated\<close> in
  the session state of the token (created if there is none) and changes nothing else of
  it: no termination reason and no termination time are stored. Below 10 it leaves every
  session state as it is.
\<close>

theorem record_violation_effect:
  "(let old = (case violations w tok of None \<Rightarrow> [] | Some vs \<Rightarrow> vs);
        v = \<lparr>vtype = req_type data,
             vtimestamp = (case req_timestamp data of None \<Rightarrow> Server_time now
                           | Some t \<Rightarrow> Reported t),
             details = (case req_details data of None \<Rightarrow> [] | Some d \<Rightarrow> d)\<rparr>;
        r = fst (record_violation now tok data w);
        w' = snd (record_violation now tok data w)
    in violations w' tok = Some (old @ [v]) \<and>
       violation_count r = length old + 1 \<and>
       max_reached r = (10 \<le> length old + 1) \<and>
       (if 10 \<le> length old + 1
        then states w' tok =
               Some ((fst (get_or_create_session_state tok w))\<lparr>terminated := True\<rparr>)
        else states w' = states w))"
  by (simp add: record_violation_def Let_def get_or_create_session_state_def put_state_def
           split: option.splits prod.splits)

theorem record_violation_effect_witness:
  "violations w_cfg ''t1'' = None \<and>
   violation_count (fst (record_violation 7 ''t1'' violation0 w_cfg)) = 1 \<and>
   \<not> max_reached (fst (record_violation 7 ''t1'' violation0 w_cfg)) \<and>
   states (snd (record_violation 7 ''t1'' violation0 w_cfg)) = states w_cfg"
proof -
  have a: "violations w_cfg ''t1'' = None"
    by (simp add: w_cfg_def empty_world_def)
  from record_violation_effect [of w_cfg "''t1''" violation0 7] a
  show ?thesis by (simp add: Let_def)
qed

text \<open>
  The claim C4 as it is written fails on the reason: after nine reports the token has no
  session state yet, the tenth creates it terminated, and neither a termination reason
  nor a termination time is recorded.
\<close>

theorem record_violation_reason_counterexample:
  "map_option terminated (states (record_many 9 w_cfg) ''t1'') = None \<and>
   map_option terminated (states (record_many 10 w_cfg) ''t1'') = Some True \<and>
   map_option termination_reason (states (record_many 10 w_cfg) ''t1'') = Some None \<and>
   map_option terminated_at (states (record_many 10 w_cfg) ''t1'') = Some None"
  by code_simp

subsection \<open>The interview log\<close>

lemma collect_all_Inr: "collect (map Inr xs) = Inr xs"
  by (induction xs) simp_all

lemma build_interview_ok:
  assumes "actual_questions_asked s \<le> int (length (actual_questions s))"
  shows "build_interview s =
     Inr (map (\<lambda>i. \<lparr>entry_number = int i + 1,
                entry_question = actual_questions s ! i,
                entry_answer = (if i < length (answers s) then Some (answers s ! i) else None),
                entry_rating = (if i < length (ratings s) then Some (ratings s ! i) else None)\<rparr>)
           [0..<nat (actual_questions_asked s)])"
proof -
  have "map (build_entry s) [0..<nat (actual_questions_asked s)] =
        map Inr (map (\<lambda>i. \<lparr>entry_number = int i + 1,
                entry_question = actual_questions s ! i,
                entry_answer = (if i < length (answers s) then Some (answers s ! i) else None),
                entry_rating = (if i < length (ratings s) then Some (ratings s ! i) else None)\<rparr>)
           [0..<nat (actual_questions_asked s)])"
    using assms by (auto simp: build_entry_def)
  then show ?thesis
    unfolding build_interview_def by (simp only: collect_all_Inr)
qed

lemma save_interview_log_ok:
  assumes "candidate_name (sess_config s) = Some name"
    and "actual_questions_asked s \<le> int (length (actual_questions s))"
    and "write_error w (log_dir (lower (replace_space name))) = None"
    and "write_error w (log_path (lower (replace_space name)) tok) = None"
  shows "fst (save_interview_log tok s w) = Inr ()"
  using assms build_interview_ok [OF assms(2)]
  by (simp add: save_interview_log_def Let_def)

text \<open>
  C8. The list comprehension of \<open>save_interview_log\<close> guards the reads of the answers
  and of the ratings, not the read of the questions. In the example interview of two
  questions the first answer arrives while the provider cannot be reached: the answer is
  stored and \<open>actual_questions_asked\<close> is 2 already when the call raises, with one
  question stored. The next answer is the last one; \<open>generate_final_summary\<close> marks the
  session complete and \<open>save_interview_log\<close> raises \<^verbatim>\<open>IndexError\<close> at index 1, so no
  log is written.
\<close>

theorem save_interview_log_index_error:
  "map_option actual_questions_asked (interview_sessions w_gateway_failed ''t1'') = Some 2 \<and>
   map_option actual_questions (interview_sessions w_gateway_failed ''t1'') =
     Some [''What is a list?''] \<and>
   map_option answers (interview_sessions w_gateway_failed ''t1'') = Some [''A sequence.''] \<and>
   fst (process_answer_and_get_next chat_prose loads_fail 9 ''t1'' ''A mapping.''
          w_gateway_failed) = Inl IndexError \<and>
   map_option is_complete (interview_sessions
      (snd (process_answer_and_get_next chat_prose loads_fail 9 ''t1'' ''A mapping.''
              w_gateway_failed)) ''t1'') = Some True \<and>
   interview_logs
      (snd (process_answer_and_get_next chat_prose loads_fail 9 ''t1'' ''A mapping.''
              w_gateway_failed)) (''ada_byron'', ''t1'') = None"
  by code_simp

subsection \<open>The final summary\<close>

text \<open>
  C6, as the code has it. When the reply of the model is not valid JSON,
  \<open>generate_final_summary\<close> catches the parse error: the session stores the fallback
  summary (the stripped reply as \<open>overall_feedback\<close>, two empty lists, a null rating) and
  is marked complete with the completion time, whatever happens to the log afterwards.
  The call then raises what \<open>save_interview_log\<close> raises, if it raises, and otherwise
  returns the thank-you text, the number of questions asked, \<open>is_complete = True\<close> and,
  as \<open>internal_summary\<close>, the stripped reply itself, not the summary object. The log
  write returns, and so does the call, when the candidate has a name, every asked
  question is stored, and neither creating the directory of the log nor opening its file
  raises.
\<close>

theorem generate_final_summary_fallback:
  assumes "interview_sessions w tok = Some s"
    and "chat 300 (chat_history s @
           [(User, Text final_answer),
            (System, Summary_prompt (actual_questions_asked s) final_answer)]) = Some reply"
    and "loads (strip reply) = None"
  shows "interview_sessions (snd (generate_final_summary chat loads now tok final_answer w)) tok =
           Some (s\<lparr>is_complete := True, current_state := Complete,
                   final_summary := Some (fallback_summary (strip reply)),
                   completed_at := Some now\<rparr>) \<and>
         fst (generate_final_summary chat loads now tok final_answer w) =
           (case fst (save_interview_log tok
                        (s\<lparr>is_complete := True, current_state := Complete,
                            final_summary := Some (fallback_summary (strip reply)),
                            completed_at := Some now\<rparr>)
                        (put_session tok
                           (s\<lparr>is_complete := True, current_state := Complete,
                               final_summary := Some (fallback_summary (strip reply)),
                               completed_at := Some now\<rparr>) w)) of
              Inl e \<Rightarrow> Inl e
            | Inr u \<Rightarrow>
                Inr [(''response_text'', PStr thank_you),
                     (''question_number'', PInt (actual_questions_asked s)),
                     (''is_complete'', PBool True),
                     (''internal_summary'', PStr (strip reply))]) \<and>
         (candidate_name (sess_config s) = Some name \<and>
          actual_questions_asked s \<le> int (length (actual_questions s)) \<and>
          write_error w (log_dir (lower (replace_space name))) = None \<and>
          write_error w (log_path (lower (replace_space name)) tok) = None \<longrightarrow>
          fst (generate_final_summary chat loads now tok final_answer w) =
            Inr [(''response_text'', PStr thank_you),
                 (''question_number'', PInt (actual_questions_asked s)),
                 (''is_complete'', PBool True),
                 (''internal_summary'', PStr (strip reply))])"
proof -
  let ?s' = "s\<lparr>is_complete := True, current_state := Complete,
                   final_summary := Some (fallback_summary (strip reply)),
                   completed_at := Some now\<rparr>"
  let ?w1 = "put_session tok ?s' w"
  let ?ok = "Inr [(''response_text'', PStr thank_you),
                 (''question_number'', PInt (actual_questions_asked s)),
                 (''is_complete'', PBool True),
                 (''internal_summary'', PStr (strip reply))] :: py_error + pydict"
  obtain r w2 where sv: "save_interview_log tok ?s' ?w1 = (r, w2)"
    by (cases "save_interview_log tok ?s' ?w1")
  have g: "generate_final_summary chat loads now tok final_answer w =
     (case r of Inl e \<Rightarrow> (Inl e, w2) | Inr u \<Rightarrow> (?ok, w2))"
    using assms sv
    by (simp add: generate_final_summary_def get_interview_session_def Let_def
             split: sum.splits)
  have "interview_sessions w2 = interview_sessions ?w1"
    using interview_sessions_save [of tok ?s' ?w1] sv by simp
  then have stored: "interview_sessions
      (snd (generate_final_summary chat loads now tok final_answer w)) tok = Some ?s'"
    unfolding g by (simp split: sum.splits)
  have result: "fst (generate_final_summary chat loads now tok final_answer w) =
      (case fst (save_interview_log tok ?s' ?w1) of Inl e \<Rightarrow> Inl e | Inr u \<Rightarrow> ?ok)"
    unfolding g sv by (simp split: sum.splits)
  have "fst (generate_final_summary chat loads now tok final_answer w) = ?ok"
    if "candidate_name (sess_config s) = Some name"
      and "actual_questions_asked s \<le> int (length (actual_questions s))"
      and "write_error w (log_dir (lower (replace_space name))) = None"
      and "write_error w (log_path (lower (replace_space name)) tok) = None"
  proof -
    have "fst (save_interview_log tok ?s' ?w1) = Inr ()"
      using that by (intro save_interview_log_ok [where name = name]) simp_all
    then show ?thesis
      unfolding result by simp
  qed
  with stored result show ?thesis by blast
qed

lemma safe_name_ada: "lower (replace_space ''Ada Byron'') = ''ada_byron''"
  by code_simp

lemma write_ok_w_second:
  "write_error w_second (log_dir ''ada_byron'') = None \<and>
   write_error w_second (log_path ''ada_byron'' ''t1'') = None"
  by code_simp

theorem generate_final_summary_fallback_witness:
  "interview_sessions w_second ''t1'' = Some s_second \<and>
   loads_fail (strip ''Solid answers overall.'') = None \<and>
   candidate_name (sess_config s_second) = Some ''Ada Byron'' \<and>
   actual_questions_asked s_second \<le> int (length (actual_questions s_second)) \<and>
   write_error w_second (log_dir (lower (replace_space ''Ada Byron''))) = None \<and>
   write_error w_second (log_path (lower (replace_space ''Ada Byron'')) ''t1'') = None \<and>
   interview_sessions
     (snd (generate_final_summary chat_prose loads_fail 9 ''t1'' ''A mapping.'' w_second)) ''t1'' =
     Some (s_second\<lparr>is_complete := True, current_state := Complete,
             final_summary := Some (fallback_summary ''Solid answers overall.''),
             completed_at := Some 9\<rparr>) \<and>
   fst (generate_final_summary chat_prose loads_fail 9 ''t1'' ''A mapping.'' w_second) =
     Inr [(''response_text'', PStr thank_you), (''question_number'', PInt 2),
          (''is_complete'', PBool True),
          (''internal_summary'', PStr ''Solid answers overall.'')]"
proof -
  have h2: "chat_prose 300 (chat_history s_second @
           [(User, Text ''A mapping.''),
            (System, Summary_prompt (actual_questions_asked s_second) ''A mapping.'')]) =
           Some ''Solid answers overall.''"
    by (simp add: chat_prose_def)
  have h3: "loads_fail (strip ''Solid answers overall.'') = None"
    by (simp add: loads_fail_def)
  have st: "strip ''Solid answers overall.'' = ''Solid answers overall.''"
    by (simp add: strip_def is_space_def)
  have n: "candidate_name (sess_config s_second) = Some ''Ada Byron''"
    by (simp add: s_second_def s_started_def cfg0_def)
  have q: "actual_questions_asked s_second \<le> int (length (actual_questions s_second))"
    by (simp add: s_second_def s_started_def)
  have a: "actual_questions_asked s_second = 2"
    by (simp add: s_second_def)
  have d: "write_error w_second (log_dir (lower (replace_space ''Ada Byron''))) = None"
          "write_error w_second (log_path (lower (replace_space ''Ada Byron'')) ''t1'') = None"
    using write_ok_w_second by (simp_all only: safe_name_ada)
  note th = generate_final_summary_fallback
         [where chat = chat_prose and loads = loads_fail and now = 9
            and name = "''Ada Byron''",
          OF session_w_second h2 h3, unfolded st a]
  from th have stored: "interview_sessions
     (snd (generate_final_summary chat_prose loads_fail 9 ''t1'' ''A mapping.'' w_second)) ''t1'' =
     Some (s_second\<lparr>is_complete := True, current_state := Complete,
             final_summary := Some (fallback_summary ''Solid answers overall.''),
             completed_at := Some 9\<rparr>)"
    by blast
  from th n q [unfolded a] d
  have "fst (generate_final_summary chat_prose loads_fail 9 ''t1'' ''A mapping.'' w_second) =
     Inr [(''response_text'', PStr thank_you), (''question_number'', PInt 2),
          (''is_complete'', PBool True),
          (''internal_summary'', PStr ''Solid answers overall.'')]"
    by blast
  with session_w_second h3 n q d stored show ?thesis by blast
qed

text \<open>
  The claim C6 as it is written fails twice. The call returns the raw reply, and the
  fallback summary is not among the values of the returned dict. And the call can raise
  after a reply that is not JSON: for a candidate without a name \<open>save_interview_log\<close>
  raises \<^verbatim>\<open>AttributeError\<close>, and for a name of 300 characters creating the directory
  raises \<^verbatim>\<open>OSError\<close>.
\<close>

theorem generate_final_summary_return_counterexample:
  "fst (generate_final_summary chat_prose loads_fail 9 ''t1'' ''A mapping.'' w_second) =
     Inr [(''response_text'', PStr thank_you), (''question_number'', PInt 2),
          (''is_complete'', PBool True),
          (''internal_summary'', PStr ''Solid answers overall.'')] \<and>
   fallback_summary ''Solid answers overall.'' \<notin>
     snd ` set [(''response_text'', PStr thank_you), (''question_number'', PInt 2),
          (''is_complete'', PBool True),
          (''internal_summary'', PStr ''Solid answers overall.'')] \<and>
   fst (generate_final_summary chat_prose loads_fail 9 ''t2'' ''A mapping.'' w_anonymous) =
     Inl AttributeError \<and>
   fst (generate_final_summary chat_prose loads_fail 9 ''t3'' ''A mapping.'' w_long_name) =
     Inl OSError"
  by code_simp

subsection \<open>Creating a test\<close>

text \<open>
  C2. When the mail cannot be sent, \<open>create_test\<close> returns from the exception handler:
  the response carries the token, \<open>email_sent = False\<close> and the error text with status
  201, and the state is what it was. No configuration is built, written or cached, and
  \<open>load_test_config\<close> finds nothing under the token afterwards.
\<close>

theorem create_test_email_failure_drops_config:
  "fst (create_test mail_down 0 ''t1'' request0 empty_world) =
     (Email_not_sent ''t1'' ''Connection refused'', 201) \<and>
   snd (create_test mail_down 0 ''t1'' request0 empty_world) = empty_world \<and>
   fst (load_test_config ''t1'' (snd (create_test mail_down 0 ''t1'' request0 empty_world))) =
     None"
  by (simp add: create_test_def mail_down_def load_test_config_def empty_world_def)

subsection \<open>The invariant of the interview session\<close>

lemma start_sessions:
  "start_structured_interview chat now tok cfg w = (Inr r, w') \<Longrightarrow>
   \<exists>s. interview_sessions w' = (interview_sessions w)(tok \<mapsto> s) \<and> session_ok s"
  by (auto simp: start_structured_interview_def initialize_interview_session_def Let_def
       session_ok_def split: option.splits)

lemma final_summary_sessions:
  assumes "interview_sessions w tok = Some s"
  shows "interview_sessions (snd (generate_final_summary chat loads now tok fa w)) =
           interview_sessions w \<and>
         fst (generate_final_summary chat loads now tok fa w) = Inl GatewayError \<or>
         (\<exists>v. interview_sessions (snd (generate_final_summary chat loads now tok fa w)) =
           (interview_sessions w)(tok \<mapsto> s\<lparr>is_complete := True, current_state := Complete,
              final_summary := Some v, completed_at := Some now\<rparr>))"
proof (cases "chat 300 (chat_history s @
           [(User, Text fa), (System, Summary_prompt (actual_questions_asked s) fa)])")
  case None
  then show ?thesis
    using assms by (simp add: generate_final_summary_def get_interview_session_def Let_def)
next
  case (Some reply)
  define v where
    "v = (case loads (strip reply) of Some v \<Rightarrow> v | None \<Rightarrow> fallback_summary (strip reply))"
  let ?s' = "s\<lparr>is_complete := True, current_state := Complete,
                final_summary := Some v, completed_at := Some now\<rparr>"
  obtain r w2 where sv: "save_interview_log tok ?s' (put_session tok ?s' w) = (r, w2)"
    by (cases "save_interview_log tok ?s' (put_session tok ?s' w)")
  have "snd (generate_final_summary chat loads now tok fa w) = w2"
    using assms Some sv
    by (simp add: generate_final_summary_def get_interview_session_def Let_def v_def
             split: sum.splits)
  moreover have "interview_sessions w2 = interview_sessions (put_session tok ?s' w)"
    using interview_sessions_save [of tok ?s' "put_session tok ?s' w"] sv by simp
  ultimately show ?thesis by auto
qed

lemma process_asked:
  assumes "interview_sessions w tok = Some s"
  shows "map_option actual_questions_asked
           (interview_sessions (snd (process_answer_and_get_next chat loads now tok ans w)) tok) =
         Some (if \<not> is_complete s \<and> actual_questions_asked s < num_questions (sess_config s)
               then actual_questions_asked s + 1 else actual_questions_asked s)"
proof (cases "is_complete s")
  case True
  then show ?thesis
    using assms by (simp add: process_answer_and_get_next_def get_interview_session_def)
next
  case nc: False
  let ?s1 = "s\<lparr>answers := answers s @ [ans]\<rparr>"
  show ?thesis
  proof (cases "actual_questions_asked s \<ge> num_questions (sess_config s)")
    case True
    then have g: "process_answer_and_get_next chat loads now tok ans w =
        generate_final_summary chat loads now tok ans (put_session tok ?s1 w)"
      using assms nc
      by (simp add: process_answer_and_get_next_def get_interview_session_def Let_def)
    have "interview_sessions (put_session tok ?s1 w) tok = Some ?s1" by simp
    from final_summary_sessions [OF this, of chat loads now ans]
    show ?thesis using True nc unfolding g by auto
  next
    case False
    then show ?thesis
      using assms nc
      by (auto simp: process_answer_and_get_next_def get_interview_session_def Let_def
            split: option.splits)
  qed
qed

lemma process_sessions:
  assumes "process_answer_and_get_next chat loads now tok ans w = (res, w')"
    and "res \<noteq> Inl GatewayError"
    and "interview_sessions w tok = Some s"
    and "session_ok s"
  shows "\<exists>s'. interview_sessions w' = (interview_sessions w)(tok \<mapsto> s') \<and> session_ok s'"
proof (cases "is_complete s")
  case True
  then have "w' = w"
    using assms by (simp add: process_answer_and_get_next_def get_interview_session_def)
  then show ?thesis using assms by (intro exI [of _ s]) (auto simp: fun_eq_iff)
next
  case nc: False
  let ?s1 = "s\<lparr>answers := answers s @ [ans]\<rparr>"
  show ?thesis
  proof (cases "actual_questions_asked s \<ge> num_questions (sess_config s)")
    case True
    then have g: "generate_final_summary chat loads now tok ans (put_session tok ?s1 w) = (res, w')"
      using assms nc
      by (simp add: process_answer_and_get_next_def get_interview_session_def Let_def)
    have "interview_sessions (put_session tok ?s1 w) tok = Some ?s1" by simp
    from final_summary_sessions [OF this, of chat loads now ans] g assms(2)
    obtain v where "interview_sessions w' =
        (interview_sessions w)(tok \<mapsto> ?s1\<lparr>is_complete := True, current_state := Complete,
              final_summary := Some v, completed_at := Some now\<rparr>)"
      by auto
    moreover have "session_ok (?s1\<lparr>is_complete := True, current_state := Complete,
              final_summary := Some v, completed_at := Some now\<rparr>)"
      using assms(4) nc by (simp add: session_ok_def)
    ultimately show ?thesis by blast
  next
    case False
    let ?msgs = "chat_history s @ [(User, Text ans),
       (System, Next_prompt (actual_questions_asked s) ans (actual_questions_asked s + 1)
          (role_subject (sess_config s)) (num_questions (sess_config s) - actual_questions_asked s))]"
    show ?thesis
    proof (cases "chat 200 ?msgs")
      case None
      then show ?thesis
        using assms nc False
        by (simp add: process_answer_and_get_next_def get_interview_session_def Let_def)
    next
      case (Some reply)
      then show ?thesis
        using assms nc False
        by (auto simp: process_answer_and_get_next_def get_interview_session_def Let_def
              session_ok_def put_session_def)
    qed
  qed
qed

lemma reachable_session_ok:
  "reachable w \<Longrightarrow> interview_sessions w tok = Some s \<Longrightarrow> session_ok s"
proof (induction arbitrary: tok s rule: reachable.induct)
  case (reachable_init w)
  then show ?case by simp
next
  case (reachable_start w chat now tok' cfg r w')
  from start_sessions [OF reachable_start.hyps(2)] reachable_start.IH reachable_start.prems
  show ?case by (auto split: if_splits)
next
  case (reachable_submit w chat loads now tok' ans res w')
  show ?case
  proof (cases "interview_sessions w tok'")
    case None
    then have "w' = w"
      using reachable_submit.hyps(2)
      by (simp add: process_answer_and_get_next_def get_interview_session_def)
    then show ?thesis using reachable_submit.IH reachable_submit.prems by simp
  next
    case (Some s0)
    from process_sessions [OF reachable_submit.hyps(2,3) Some reachable_submit.IH [OF Some]]
      reachable_submit.IH reachable_submit.prems
    show ?thesis by (auto split: if_splits)
  qed
next
  case (reachable_reset w tok')
  then show ?case by (auto split: if_splits)
qed

lemma reachable_startI:
  "reachable w \<Longrightarrow> fst (start_structured_interview chat now tok cfg w) = Inr r \<Longrightarrow>
   reachable (snd (start_structured_interview chat now tok cfg w))"
  by (rule reachable_start [where chat = chat and now = now and tok = tok and cfg = cfg and r = r])
     (auto simp: prod_eq_iff)

lemma reachable_submitI:
  "reachable w \<Longrightarrow> fst (process_answer_and_get_next chat loads now tok ans w) \<noteq> Inl GatewayError \<Longrightarrow>
   reachable (snd (process_answer_and_get_next chat loads now tok ans w))"
  by (rule reachable_submit [where chat = chat and loads = loads and now = now and tok = tok
        and ans = ans and res = "fst (process_answer_and_get_next chat loads now tok ans w)"])
     (auto simp: prod_eq_iff)

lemma reachable_w_started: "reachable w_started"
  unfolding w_started_def
proof (rule reachable_startI)
  show "reachable w_cfg" by (rule reachable_init) (rule sessions_w_cfg)
  show "fst (start_structured_interview chat_q1 0 ''t1'' cfg0 w_cfg) =
        Inr (strip ''Welcome, Ada. Question 1: What is a list?'')"
    by (simp add: start_structured_interview_def initialize_interview_session_def Let_def
          chat_q1_def)
qed

lemma reachable_w_second: "reachable w_second"
  unfolding w_second_def
proof (rule reachable_submitI)
  show "reachable w_started" by (rule reachable_w_started)
  show "fst (process_answer_and_get_next chat_q2 loads_fail 5 ''t1'' ''A sequence.'' w_started)
        \<noteq> Inl GatewayError"
    by code_simp
qed

lemma reachable_w_done: "reachable w_done"
  unfolding w_done_def
proof (rule reachable_submitI)
  show "reachable w_second" by (rule reachable_w_second)
  show "fst (process_answer_and_get_next chat_prose loads_fail 9 ''t1'' ''A mapping.'' w_second)
        \<noteq> Inl GatewayError"
    by code_simp
qed

lemma reachable_w_zero: "reachable w_zero"
  unfolding w_zero_def
proof (rule reachable_startI)
  show "reachable empty_world" by (rule reachable_init) (simp add: empty_world_def)
  show "fst (start_structured_interview chat_q1 0 ''t0''
          (cfg0\<lparr>cfg_token := ''t0'', num_questions := 0\<rparr>) empty_world) =
        Inr (strip ''Welcome, Ada. Question 1: What is a list?'')"
    by (simp add: start_structured_interview_def initialize_interview_session_def Let_def
          chat_q1_def)
qed

text \<open>
  C5, as the code has it. Take a state reached by calls in which the chat completion
  returned, and in it a session whose configuration asks for at least one question. Then
  the answers are no more than the questions, the questions no more than
  \<open>num_questions\<close>, and \<open>actual_questions_asked\<close> is at most \<open>num_questions\<close>. An
  answer submitted to a session that is not complete and has asked fewer questions than
  configured raises \<open>actual_questions_asked\<close> by exactly one; any other submitted answer
  leaves the counter as it is. Once the session is complete a submitted answer is
  rejected with \<open>Interview already complete\<close> and the whole state is what it was, the
  answer not appended. (\<open>get_interview_progress\<close> returns a dict only; a new
  \<open>start_structured_interview\<close> replaces the session and \<open>reset_interview\<close> removes
  it.)
\<close>

theorem interview_session_invariant:
  assumes "reachable w"
    and "interview_sessions w tok = Some s"
    and "1 \<le> num_questions (sess_config s)"
  shows "length (answers s) \<le> length (actual_questions s) \<and>
         int (length (actual_questions s)) \<le> num_questions (sess_config s) \<and>
         actual_questions_asked s \<le> num_questions (sess_config s) \<and>
         map_option actual_questions_asked
           (interview_sessions (snd (process_answer_and_get_next chat loads now tok ans w)) tok) =
           Some (if \<not> is_complete s \<and> actual_questions_asked s < num_questions (sess_config s)
                 then actual_questions_asked s + 1 else actual_questions_asked s) \<and>
         (is_complete s \<longrightarrow>
            process_answer_and_get_next chat loads now tok ans w =
              (Inr [(''error'', PStr ''Interview already complete'')], w))"
proof -
  have ok: "session_ok s"
    using assms(1,2) by (rule reachable_session_ok)
  have "length (answers s) \<le> length (actual_questions s)"
    using ok by (auto simp: session_ok_def split: if_splits)
  moreover have "int (length (actual_questions s)) \<le> num_questions (sess_config s)"
    using ok assms(3) by (simp add: session_ok_def)
  moreover have "actual_questions_asked s \<le> num_questions (sess_config s)"
    using ok assms(3) by (simp add: session_ok_def)
  moreover note process_asked [OF assms(2), of chat loads now ans]
  moreover have "process_answer_and_get_next chat loads now tok ans w =
              (Inr [(''error'', PStr ''Interview already complete'')], w)" if "is_complete s"
    using that assms(2)
    by (simp add: process_answer_and_get_next_def get_interview_session_def)
  ultimately show ?thesis by blast
qed

lemma session_w_done: "interview_sessions w_done ''t1'' = Some s_done"
  by code_simp

theorem interview_session_invariant_witness:
  "reachable w_second \<and> interview_sessions w_second ''t1'' = Some s_second \<and>
   1 \<le> num_questions (sess_config s_second) \<and>
   length (answers s_second) \<le> length (actual_questions s_second) \<and>
   int (length (actual_questions s_second)) \<le> num_questions (sess_config s_second) \<and>
   actual_questions_asked s_second \<le> num_questions (sess_config s_second) \<and>
   map_option actual_questions_asked
     (interview_sessions
        (snd (process_answer_and_get_next chat_prose loads_fail 9 ''t1'' ''A mapping.'' w_second))
        ''t1'') = Some 2 \<and>
   reachable w_done \<and> interview_sessions w_done ''t1'' = Some s_done \<and>
   1 \<le> num_questions (sess_config s_done) \<and> is_complete s_done \<and>
   process_answer_and_get_next chat_q2 loads_fail 12 ''t1'' ''One more thing.'' w_done =
     (Inr [(''error'', PStr ''Interview already complete'')], w_done)"
proof -
  have n: "1 \<le> num_questions (sess_config s_second)"
    by (simp add: s_second_def s_started_def cfg0_def)
  have a: "actual_questions_asked s_second = 2" "num_questions (sess_config s_second) = 2"
    by (simp_all add: s_second_def s_started_def cfg0_def)
  have nd: "1 \<le> num_questions (sess_config s_done)"
    by (simp add: s_done_def s_second_def s_started_def cfg0_def)
  have c: "is_complete s_done"
    by (simp add: s_done_def)
  from interview_session_invariant
         [where chat = chat_prose and loads = loads_fail and now = 9 and ans = "''A mapping.''",
          OF reachable_w_second session_w_second n]
       interview_session_invariant
         [where chat = chat_q2 and loads = loads_fail and now = 12
            and ans = "''One more thing.''",
          OF reachable_w_done session_w_done nd]
       reachable_w_second session_w_second n reachable_w_done session_w_done nd c
  show ?thesis by (simp add: a)
qed

text \<open>
  The claim C5 as it is written fails in three ways. A configuration with
  \<open>num_questions = 0\<close> still gets its first question: one question stored and one asked,
  above the configured number. A complete session is replaced by a new start: it is not
  complete any more and its answers are gone. And when the chat completion fails after
  the answer was stored, the answers outgrow the questions: two answers, one question.
\<close>

theorem interview_session_invariant_counterexample:
  "reachable w_zero \<and>
   map_option actual_questions (interview_sessions w_zero ''t0'') = Some [''What is a list?''] \<and>
   map_option actual_questions_asked (interview_sessions w_zero ''t0'') = Some 1 \<and>
   map_option (num_questions \<circ> sess_config) (interview_sessions w_zero ''t0'') = Some 0 \<and>
   reachable w_done \<and>
   map_option is_complete (interview_sessions w_done ''t1'') = Some True \<and>
   map_option answers (interview_sessions w_done ''t1'') = Some [''A sequence.'', ''A mapping.''] \<and>
   map_option is_complete
     (interview_sessions (snd (start_structured_interview chat_q1 20 ''t1'' cfg0 w_done)) ''t1'') =
     Some False \<and>
   map_option answers
     (interview_sessions (snd (start_structured_interview chat_q1 20 ''t1'' cfg0 w_done)) ''t1'') =
     Some [] \<and>
   map_option answers
     (interview_sessions
        (snd (process_answer_and_get_next chat_prose loads_fail 9 ''t1'' ''A mapping.''
                w_gateway_failed)) ''t1'') = Some [''A sequence.'', ''A mapping.''] \<and>
   map_option actual_questions
     (interview_sessions
        (snd (process_answer_and_get_next chat_prose loads_fail 9 ''t1'' ''A mapping.''
                w_gateway_failed)) ''t1'') = Some [''What is a list?'']"
proof -
  have z: "map_option actual_questions (interview_sessions w_zero ''t0'') =
             Some [''What is a list?''] \<and>
           map_option actual_questions_asked (interview_sessions w_zero ''t0'') = Some 1 \<and>
           map_option (num_questions \<circ> sess_config) (interview_sessions w_zero ''t0'') = Some 0"
    by code_simp
  have r: "map_option is_complete
     (interview_sessions (snd (start_structured_interview chat_q1 20 ''t1'' cfg0 w_done)) ''t1'') =
     Some False \<and>
   map_option answers
     (interview_sessions (snd (start_structured_interview chat_q1 20 ''t1'' cfg0 w_done)) ''t1'') =
     Some []"
    by (simp add: start_structured_interview_def initialize_interview_session_def Let_def
          chat_q1_def)
  have f: "map_option answers
     (interview_sessions
        (snd (process_answer_and_get_next chat_prose loads_fail 9 ''t1'' ''A mapping.''
                w_gateway_failed)) ''t1'') = Some [''A sequence.'', ''A mapping.''] \<and>
   map_option actual_questions
     (interview_sessions
        (snd (process_answer_and_get_next chat_prose loads_fail 9 ''t1'' ''A mapping.''
                w_gateway_failed)) ''t1'') = Some [''What is a list?'']"
    by code_simp
  have d: "map_option is_complete (interview_sessions w_done ''t1'') = Some True \<and>
           map_option answers (interview_sessions w_done ''t1'') =
             Some [''A sequence.'', ''A mapping.'']"
    by (simp add: session_w_done s_done_def)
  from reachable_w_zero z reachable_w_done d r f
  show ?thesis by blast
qed


end
